theory Spec2Isabelle
  imports Complex_Main
begin

section \<open>Python values, generation configs and exceptions\<close>

text \<open>
  The development embeds \<^verbatim>\<open>xinference/model/llm/transformers/qwen2_vl.py\<close>: the methods
  \<^verbatim>\<open>chat\<close>, \<^verbatim>\<open>_generate\<close> and \<^verbatim>\<open>_generate_stream\<close> of \<^verbatim>\<open>Qwen2VLChatModel\<close>.
  A leading underscore of a source name is written \<open>u_\<close>, since an Isabelle name starts
  with a letter.

  A generation config is a Python dict from option names to values. It is an association
  list here, read with \<open>map_of\<close>; the dict is falsy exactly when the list is empty.
\<close>

datatype pyval = PNone | PBool bool | PInt int | PFloat rat | PStr string

text \<open>Python's truth value of an object, as \<^verbatim>\<open>if stream:\<close> tests it.\<close>

fun truthy :: "pyval \<Rightarrow> bool" where
  "truthy PNone = False"
| "truthy (PBool b) = b"
| "truthy (PInt i) = (i \<noteq> 0)"
| "truthy (PFloat r) = (r \<noteq> 0)"
| "truthy (PStr s) = (s \<noteq> [])"

text \<open>Python's \<^verbatim>\<open>==\<close> on these values: numbers compare by value, \<^verbatim>\<open>1 == 1.0\<close>.\<close>

fun py_num :: "pyval \<Rightarrow> rat option" where
  "py_num (PBool b) = Some (if b then 1 else 0)"
| "py_num (PInt i) = Some (of_int i)"
| "py_num (PFloat r) = Some r"
| "py_num PNone = None"
| "py_num (PStr s) = None"

definition py_eq :: "pyval \<Rightarrow> pyval \<Rightarrow> bool" where
  "py_eq a b =
     (case (py_num a, py_num b) of
        (Some x, Some y) \<Rightarrow> x = y
      | (None, None) \<Rightarrow> a = b
      | _ \<Rightarrow> False)"

type_synonym PytorchGenerateConfig = "(string \<times> pyval) list"

text \<open>\<^verbatim>\<open>config.get(key, default)\<close>.\<close>

definition dict_get :: "PytorchGenerateConfig \<Rightarrow> string \<Rightarrow> pyval \<Rightarrow> pyval" where
  "dict_get d k dflt = (case map_of d k of None \<Rightarrow> dflt | Some v \<Rightarrow> v)"

text \<open>
  An exception object: its class, its message and the traceback it carries. The classes
  are those of the spec's taxonomy, \<^verbatim>\<open>queue.Empty\<close> (what the streamer's queue raises
  when a wait times out), \<^verbatim>\<open>IndexError\<close>, and \<^verbatim>\<open>SystemExit\<close> as a class that does not
  derive from \<^verbatim>\<open>Exception\<close>. Frames added to a traceback while an exception propagates
  are not modelled.
\<close>

datatype exc_class =
    ValidationError | TemplateError | EngineError | GenerationTimeoutError
  | QueueEmpty | IndexError | SystemExit

record exc =
  exc_class :: exc_class
  exc_msg :: string
  exc_traceback :: "string list"

text \<open>What \<^verbatim>\<open>except Exception:\<close> catches.\<close>

fun is_Exception :: "exc_class \<Rightarrow> bool" where
  "is_Exception SystemExit = False"
| "is_Exception c = True"

text \<open>\<^verbatim>\<open>sys.exc_info()\<close> inside a handler, and \<^verbatim>\<open>err.with_traceback(tb)\<close>.\<close>

type_synonym exc_info = "exc_class \<times> exc \<times> string list"

definition sys_exc_info :: "exc \<Rightarrow> exc_info" where
  "sys_exc_info e = (exc_class e, e, exc_traceback e)"

definition with_traceback :: "exc \<Rightarrow> string list \<Rightarrow> exc" where
  "with_traceback e tb = e\<lparr>exc_traceback := tb\<rparr>"

section \<open>Messages, fragments and results\<close>

record ChatCompletionMessage =
  role :: string
  content :: string

record CompletionUsage =
  prompt_tokens :: int
  completion_tokens :: int
  total_tokens :: int

record CompletionChunk =
  chunk_id :: string
  chunk_model :: string
  delta_text :: "string option"
  finish_reason :: "string option"
  usage :: CompletionUsage

record ChatCompletion =
  completion_model :: string
  completion_text :: string
  completion_finish_reason :: string
  completion_usage :: CompletionUsage

text \<open>
  Modelled from the spec: \<^verbatim>\<open>generate_completion_chunk\<close> is imported from \<^verbatim>\<open>..utils\<close> and is
  not part of the file. The spec's Chunk Formatter is a pure mapping from text, finish
  reason, stream id, model id and usage counters to the wire shape
  \<^verbatim>\<open>{id, model, delta_text, finish_reason, usage}\<close>. The two flags the source passes
  have no wire field of their own: the choice (text and finish reason) is present when
  \<open>has_choice\<close> holds, and its text when \<open>has_content\<close> holds as well.
\<close>

definition generate_completion_chunk ::
  "string option \<Rightarrow> string option \<Rightarrow> string \<Rightarrow> string \<Rightarrow> int \<Rightarrow> int \<Rightarrow> int \<Rightarrow> bool \<Rightarrow> bool
     \<Rightarrow> CompletionChunk" where
  "generate_completion_chunk chunk_text fin cid model_uid pt ct tt has_choice has_content =
     \<lparr>chunk_id = cid,
      chunk_model = model_uid,
      delta_text = (if has_choice \<and> has_content then chunk_text else None),
      finish_reason = (if has_choice then fin else None),
      usage = \<lparr>prompt_tokens = pt, completion_tokens = ct, total_tokens = tt\<rparr>\<rparr>"

text \<open>
  Modelled from the spec: \<^verbatim>\<open>generate_chat_completion\<close> is imported from \<^verbatim>\<open>..utils\<close> and is
  not part of the file. The spec's formatter maps the usage counters it is given to the
  result, with finish reason \<^verbatim>\<open>"stop"\<close>; a counter that was not computed is the sentinel
  \<open>-1\<close> of the data model. A counter argument is \<open>None\<close> when the caller does not pass it.
  The result's id, which no caller in the file supplies, is left out of the record.
\<close>

definition generate_chat_completion ::
  "string \<Rightarrow> string \<Rightarrow> int option \<Rightarrow> int option \<Rightarrow> int option \<Rightarrow> ChatCompletion" where
  "generate_chat_completion model_uid response pt ct tt =
     \<lparr>completion_model = model_uid,
      completion_text = response,
      completion_finish_reason = ''stop'',
      completion_usage =
        \<lparr>prompt_tokens = (case pt of None \<Rightarrow> - 1 | Some n \<Rightarrow> n),
         completion_tokens = (case ct of None \<Rightarrow> - 1 | Some n \<Rightarrow> n),
         total_tokens = (case tt of None \<Rightarrow> - 1 | Some n \<Rightarrow> n)\<rparr>\<rparr>"

section \<open>The model engine and the world\<close>

text \<open>
  The processor, the vision preprocessing and the model are external collaborators. Each
  operation is a field of the model object and may raise. \<open>generate\<close> is
  \<^verbatim>\<open>self._model.generate\<close>: it returns the generated ids or raises, and when it is handed a
  streamer it writes to the streamer's queue while it runs: \<open>Put\<close> is a text placed on
  the queue, \<open>End\<close> the streamer's stop signal, and a \<open>Stall\<close> a pause of the producer
  longer than the streamer's timeout. \<open>unflushed\<close> is the text the streamer still holds
  in its token cache when \<open>generate\<close> stops, \<^verbatim>\<open>""\<close> when it holds none.
\<close>

datatype streamer_op = Put string | End | Stall

text \<open>
  \<^verbatim>\<open>TextIteratorStreamer.end()\<close>: the text still held is flushed to the queue, empty or not,
  and the stop signal follows it.
\<close>

definition streamer_end :: "string \<Rightarrow> streamer_op list" where
  "streamer_end held = [Put held, End]"

record TextIteratorStreamer =
  timeout :: rat
  skip_prompt :: bool
  skip_special_tokens :: bool

record model_inputs =
  input_ids :: "int list list"
  on_device :: string

record gen_kwargs =
  max_new_tokens :: pyval
  temperature :: pyval
  streamer :: "TextIteratorStreamer option"
  inputs :: model_inputs

record Qwen2VLChatModel =
  model_uid :: string
  device :: string
  model_device :: string
  roles :: "string list"
  apply_chat_template :: "ChatCompletionMessage list \<Rightarrow> exc + string"
  process_vision_info :: "ChatCompletionMessage list \<Rightarrow> exc + (string list \<times> string list)"
  processor :: "string list \<Rightarrow> string list \<Rightarrow> string list \<Rightarrow> exc + model_inputs"
  inputs_to :: "model_inputs \<Rightarrow> string \<Rightarrow> exc + model_inputs"
  generate :: "gen_kwargs \<Rightarrow> streamer_op list \<times> (exc + int list list)"
  unflushed :: "gen_kwargs \<Rightarrow> string"
  batch_decode :: "int list list \<Rightarrow> exc + string list"

text \<open>
  The world records every engine operation invoked so far, in order, and the position in
  the supply of \<^verbatim>\<open>uuid.uuid1()\<close> values.
\<close>

datatype engine_call =
    ApplyChatTemplate | ProcessVisionInfo | Processor | InputsTo
  | Generate gen_kwargs | BatchDecode

record world =
  calls :: "engine_call list"
  uuid_source :: "nat \<Rightarrow> string"
  uuid_count :: nat

definition log_call :: "engine_call \<Rightarrow> world \<Rightarrow> world" where
  "log_call c w = w\<lparr>calls := calls w @ [c]\<rparr>"

definition uuid1 :: "world \<Rightarrow> string \<times> world" where
  "uuid1 w = (uuid_source w (uuid_count w), w\<lparr>uuid_count := Suc (uuid_count w)\<rparr>)"

text \<open>Invoking an engine operation, and sequencing steps that may raise.\<close>

definition call :: "engine_call \<Rightarrow> exc + 'a \<Rightarrow> world \<Rightarrow> (exc + 'a) \<times> world" where
  "call c r w = (r, log_call c w)"

definition and_then ::
  "(world \<Rightarrow> (exc + 'a) \<times> world) \<Rightarrow> ('a \<Rightarrow> world \<Rightarrow> (exc + 'b) \<times> world)
     \<Rightarrow> world \<Rightarrow> (exc + 'b) \<times> world" where
  "and_then m f w = (case m w of (Inl e, w') \<Rightarrow> (Inl e, w') | (Inr x, w') \<Rightarrow> f x w')"

section \<open>Input preparation and the synchronous path\<close>

text \<open>
  Lines 148-159 of \<^verbatim>\<open>_generate\<close> and 186-197 of \<^verbatim>\<open>_generate_stream\<close>: the same four steps,
  with \<^verbatim>\<open>self._device\<close> in the first and \<^verbatim>\<open>self._model.device\<close> in the second.
\<close>

definition prepare_inputs ::
  "Qwen2VLChatModel \<Rightarrow> ChatCompletionMessage list \<Rightarrow> string \<Rightarrow> world
     \<Rightarrow> (exc + model_inputs) \<times> world" where
  "prepare_inputs self messages dev =
     and_then (call ApplyChatTemplate (apply_chat_template self messages)) (\<lambda>text.
     and_then (call ProcessVisionInfo (process_vision_info self messages))
       (\<lambda>(image_inputs, video_inputs).
     and_then (call Processor (processor self [text] image_inputs video_inputs)) (\<lambda>inps.
     call InputsTo (inputs_to self inps dev))))"

text \<open>The keyword arguments of the call on lines 162-166.\<close>

definition sync_kwargs :: "PytorchGenerateConfig \<Rightarrow> model_inputs \<Rightarrow> gen_kwargs" where
  "sync_kwargs config inps =
     \<lparr>max_new_tokens = dict_get config ''max_tokens'' (PInt 512),
      temperature = dict_get config ''temperature'' (PInt 1),
      streamer = None,
      inputs = inps\<rparr>"

definition trim_generated :: "int list list \<Rightarrow> int list list \<Rightarrow> int list list" where
  "trim_generated in_batch generated_ids =
     map (\<lambda>(in_ids, out_ids). drop (length in_ids) out_ids) (zip in_batch generated_ids)"

definition index_error :: exc where
  "index_error = \<lparr>exc_class = IndexError, exc_msg = ''list index out of range'',
                  exc_traceback = [''_generate'']\<rparr>"

definition u_generate ::
  "Qwen2VLChatModel \<Rightarrow> ChatCompletionMessage list \<Rightarrow> PytorchGenerateConfig \<Rightarrow> world
     \<Rightarrow> (exc + ChatCompletion) \<times> world" where
  "u_generate self messages config =
     and_then (prepare_inputs self messages (device self)) (\<lambda>inps.
     and_then (call (Generate (sync_kwargs config inps))
                 (snd (generate self (sync_kwargs config inps)))) (\<lambda>generated_ids.
     and_then (call BatchDecode
                 (batch_decode self (trim_generated (input_ids inps) generated_ids)))
       (\<lambda>decoded w.
          case decoded of
            [] \<Rightarrow> (Inl index_error, w)
          | output_text # _ \<Rightarrow>
              (Inr (generate_chat_completion (model_uid self) output_text None None None),
               w))))"

section \<open>The streaming path\<close>

text \<open>Lines 199-202: the streamer is built from constants.\<close>

definition new_streamer :: TextIteratorStreamer where
  "new_streamer = \<lparr>timeout = 60, skip_prompt = True, skip_special_tokens = True\<rparr>"

text \<open>Lines 204-209.\<close>

definition stream_kwargs :: "PytorchGenerateConfig \<Rightarrow> model_inputs \<Rightarrow> gen_kwargs" where
  "stream_kwargs config inps =
     \<lparr>max_new_tokens = dict_get config ''max_tokens'' (PInt 512),
      temperature = dict_get config ''temperature'' (PInt 1),
      streamer = Some new_streamer,
      inputs = inps\<rparr>"

text \<open>
  Lines 212-219, the body of the producer thread. Producer and consumer share the
  streamer's queue and the variable \<^verbatim>\<open>error\<close>; the thread's run is the sequence of its
  actions on the two, in program order. An exception that \<^verbatim>\<open>except Exception\<close> catches is
  stored in \<^verbatim>\<open>error\<close> and then \<^verbatim>\<open>streamer.end()\<close> is called (lines 217-218); any other
  leaves both untouched.
\<close>

datatype producer_action = Queue streamer_op | SetError exc_info

definition model_generate :: "Qwen2VLChatModel \<Rightarrow> gen_kwargs \<Rightarrow> producer_action list" where
  "model_generate self kw =
     (case generate self kw of
        (ops, Inr _) \<Rightarrow> map Queue ops
      | (ops, Inl e) \<Rightarrow>
          if is_Exception (exc_class e)
          then map Queue ops @ SetError (sys_exc_info e)
                 # map Queue (streamer_end (unflushed self kw))
          else map Queue ops)"

definition queue_empty :: exc where
  "queue_empty = \<lparr>exc_class = QueueEmpty, exc_msg = [], exc_traceback = [''__next__'']\<rparr>"

text \<open>Lines 226-236 and 242-252: the two fragments the generator yields.\<close>

definition text_chunk :: "string \<Rightarrow> string \<Rightarrow> string \<Rightarrow> CompletionChunk" where
  "text_chunk completion_id uid new_text =
     generate_completion_chunk (Some new_text) None completion_id uid (- 1) (- 1) (- 1)
       True True"

definition stop_chunk :: "string \<Rightarrow> string \<Rightarrow> CompletionChunk" where
  "stop_chunk completion_id uid =
     generate_completion_chunk None (Some ''stop'') completion_id uid (- 1) (- 1) (- 1)
       True False"

text \<open>
  Line 225, \<^verbatim>\<open>for new_text in streamer\<close>: the consumer takes the producer's actions in
  order. Each text put on the queue is yielded as a fragment, the end signal leaves the
  loop, and a wait that outlasts the timeout (a stall, or a producer that finished without
  ending the queue) raises \<^verbatim>\<open>queue.Empty\<close> out of the loop, which nothing catches.

  The result also gives \<^verbatim>\<open>error\<close> as the consumer finds it on line 238. The variable is
  read after the loop, not when the stop signal is taken: an assignment the producer makes
  after it has ended the queue is seen as well, so \<open>error_after\<close> runs through the
  producer's remaining actions.
\<close>

datatype loop_exit = Exhausted | LoopRaised exc

fun error_after :: "producer_action list \<Rightarrow> exc_info option \<Rightarrow> exc_info option" where
  "error_after [] error = error"
| "error_after (SetError ei # acts) error = error_after acts (Some ei)"
| "error_after (Queue op # acts) error = error_after acts error"

fun stream_loop ::
  "string \<Rightarrow> string \<Rightarrow> producer_action list \<Rightarrow> exc_info option
     \<Rightarrow> CompletionChunk list \<times> loop_exit \<times> exc_info option" where
  "stream_loop cid uid [] error = ([], LoopRaised queue_empty, error)"
| "stream_loop cid uid (SetError ei # acts) error = stream_loop cid uid acts (Some ei)"
| "stream_loop cid uid (Queue (Put new_text) # acts) error =
     (case stream_loop cid uid acts error of
        (chunks, ex, err) \<Rightarrow> (text_chunk cid uid new_text # chunks, ex, err))"
| "stream_loop cid uid (Queue End # acts) error = ([], Exhausted, error_after acts error)"
| "stream_loop cid uid (Queue Stall # acts) error = ([], LoopRaised queue_empty, error)"

text \<open>
  \<^verbatim>\<open>_generate_stream\<close> is a generator function: calling it runs nothing. The definition is the
  generator pulled until it ends: the fragments it yields, in order, then how it ends
  (\<^verbatim>\<open>StopIteration\<close> or an exception).
\<close>

datatype gen_end = StopIteration | Raised exc

definition u_generate_stream ::
  "Qwen2VLChatModel \<Rightarrow> ChatCompletionMessage list \<Rightarrow> PytorchGenerateConfig \<Rightarrow> world
     \<Rightarrow> (CompletionChunk list \<times> gen_end) \<times> world" where
  "u_generate_stream self messages config w =
     (case prepare_inputs self messages (model_device self) w of
        (Inl e, w1) \<Rightarrow> (([], Raised e), w1)
      | (Inr inps, w1) \<Rightarrow>
          (let kw = stream_kwargs config inps;
               acts = model_generate self kw;
               w2 = log_call (Generate kw) w1;
               (completion_id, w3) = uuid1 w2
           in case stream_loop completion_id (model_uid self) acts None of
                (chunks, LoopRaised e, error) \<Rightarrow> ((chunks, Raised e), w3)
              | (chunks, Exhausted, Some (ty, err, tb)) \<Rightarrow>
                  ((chunks, Raised (with_traceback err tb)), w3)
              | (chunks, Exhausted, None) \<Rightarrow>
                  ((chunks @ [stop_chunk completion_id (model_uid self)], StopIteration),
                   w3)))"

text \<open>A generator object that has not been started: the call it suspends.\<close>

datatype chunk_iterator = GenerateStream "ChatCompletionMessage list" PytorchGenerateConfig

text \<open>
  Modelled from the spec: \<^verbatim>\<open>_to_chat_completion_chunks\<close> is inherited and is not part of the
  file. In the spec the orchestrator returns the bridge's lazy sequence and does not
  itself block or buffer: the wrapper is lazy and hands every fragment on, in order.
\<close>

datatype chat_chunk_iterator = ToChatCompletionChunks chunk_iterator

definition u_to_chat_completion_chunks :: "chunk_iterator \<Rightarrow> chat_chunk_iterator" where
  "u_to_chat_completion_chunks it = ToChatCompletionChunks it"

text \<open>The consumer pulling the returned iterator until it ends.\<close>

fun consume ::
  "Qwen2VLChatModel \<Rightarrow> chat_chunk_iterator \<Rightarrow> world
     \<Rightarrow> (CompletionChunk list \<times> gen_end) \<times> world" where
  "consume self (ToChatCompletionChunks (GenerateStream messages config)) w =
     u_generate_stream self messages config w"

section \<open>The entry point\<close>

text \<open>
  Modelled from the spec: \<^verbatim>\<open>_transform_messages\<close> is inherited and is not part of the file.
  The spec's input validation: the conversation must be non-empty and every role must be
  one of a fixed enumeration (the field \<open>roles\<close>), else a \<^verbatim>\<open>ValidationError\<close>.
\<close>

definition validation_error :: exc where
  "validation_error = \<lparr>exc_class = ValidationError, exc_msg = ''invalid messages'',
                       exc_traceback = [''_transform_messages'']\<rparr>"

definition u_transform_messages ::
  "Qwen2VLChatModel \<Rightarrow> ChatCompletionMessage list \<Rightarrow> exc + ChatCompletionMessage list" where
  "u_transform_messages self messages =
     (if messages = [] then Inl validation_error
      else if list_ex (\<lambda>m. role m \<notin> set (roles self)) messages then Inl validation_error
      else Inr messages)"

datatype chat_result = Completion ChatCompletion | ChunkIterator chat_chunk_iterator

text \<open>Lines 124-140. The decorator \<^verbatim>\<open>cache_clean\<close> is not part of the file and is left out.\<close>

definition chat ::
  "Qwen2VLChatModel \<Rightarrow> ChatCompletionMessage list \<Rightarrow> PytorchGenerateConfig option \<Rightarrow> world
     \<Rightarrow> (exc + chat_result) \<times> world" where
  "chat self messages generate_config w =
     (case u_transform_messages self messages of
        Inl e \<Rightarrow> (Inl e, w)
      | Inr msgs \<Rightarrow>
          (let config = (case generate_config of
                           None \<Rightarrow> []
                         | Some c \<Rightarrow> if c \<noteq> [] then c else []);
               stream = (if config \<noteq> [] then dict_get config ''stream'' (PBool False)
                         else PBool False)
           in if truthy stream
              then (Inr (ChunkIterator
                      (u_to_chat_completion_chunks (GenerateStream msgs config))), w)
              else (case u_generate self msgs config w of
                      (Inl e, w') \<Rightarrow> (Inl e, w')
                    | (Inr c, w') \<Rightarrow> (Inr (Completion c), w'))))"

text \<open>
  The spec's reading of the \<open>stream\<close> option: false when no config is supplied or the
  option is absent, else the truth value of the option.
\<close>

definition stream_option :: "PytorchGenerateConfig option \<Rightarrow> bool" where
  "stream_option generate_config =
     (case generate_config of
        None \<Rightarrow> False
      | Some c \<Rightarrow> (case map_of c ''stream'' of None \<Rightarrow> False | Some v \<Rightarrow> truthy v))"

section \<open>Reading a run\<close>

text \<open>
  What a run of \<open>generate\<close> means for the consumer: the texts put on the queue before the
  first other signal, and that signal (\<open>None\<close> when the queue is never ended).
\<close>

fun put_texts :: "streamer_op list \<Rightarrow> string list" where
  "put_texts (Put t # ops) = t # put_texts ops"
| "put_texts ops = []"

fun next_signal :: "streamer_op list \<Rightarrow> streamer_op option" where
  "next_signal [] = None"
| "next_signal (Put t # ops) = next_signal ops"
| "next_signal (op # ops) = Some op"

definition yielded :: "('a list \<times> gen_end) \<times> world \<Rightarrow> 'a list" where
  "yielded r = fst (fst r)"

definition ending :: "('a list \<times> gen_end) \<times> world \<Rightarrow> gen_end" where
  "ending r = snd (fst r)"

text \<open>The engine calls an operation adds to the log of the world it started in.\<close>

definition new_calls :: "world \<Rightarrow> world \<Rightarrow> engine_call list" where
  "new_calls w w' = drop (length (calls w)) (calls w')"

text \<open>
  The producer completes without error: the input is prepared, \<open>generate\<close> returns, and it
  has ended the queue with no stall before.
\<close>

fun producer_completes :: "Qwen2VLChatModel \<Rightarrow> chat_chunk_iterator \<Rightarrow> world \<Rightarrow> bool" where
  "producer_completes self (ToChatCompletionChunks (GenerateStream msgs config)) w =
     (case prepare_inputs self msgs (model_device self) w of
        (Inl e, w1) \<Rightarrow> False
      | (Inr inps, w1) \<Rightarrow>
          (case generate self (stream_kwargs config inps) of
             (ops, Inl e) \<Rightarrow> False
           | (ops, Inr ids) \<Rightarrow> next_signal ops = Some End))"



text \<open>
  The producer stalls: the input is prepared and the consumer's wait outlasts the timeout
  before the queue is ended. The result is the texts put on the queue before.
\<close>

fun producer_stalls ::
  "Qwen2VLChatModel \<Rightarrow> chat_chunk_iterator \<Rightarrow> world \<Rightarrow> string list option" where
  "producer_stalls self (ToChatCompletionChunks (GenerateStream msgs config)) w =
     (case prepare_inputs self msgs (model_device self) w of
        (Inl e, w1) \<Rightarrow> None
      | (Inr inps, w1) \<Rightarrow>
          (case generate self (stream_kwargs config inps) of
             (ops, res) \<Rightarrow>
               if next_signal ops = Some Stall then Some (put_texts ops) else None))"

text \<open>The arguments of the \<open>generate\<close> calls in a log, in order.\<close>

fun generate_calls :: "engine_call list \<Rightarrow> gen_kwargs list" where
  "generate_calls [] = []"
| "generate_calls (Generate kw # cs) = kw # generate_calls cs"
| "generate_calls (c # cs) = generate_calls cs"

text \<open>
  The world after the producer thread is started and the stream identifier is drawn
  (lines 221-224), from the world \<open>w1\<close> in which the input was prepared.
\<close>

definition stream_world :: "gen_kwargs \<Rightarrow> world \<Rightarrow> world" where
  "stream_world kw w1 = (log_call (Generate kw) w1)\<lparr>uuid_count := Suc (uuid_count w1)\<rparr>"

text \<open>
  The spec's reading of an unset option: no config is supplied, or the config has no
  entry for the option.
\<close>

definition option_unset :: "PytorchGenerateConfig option \<Rightarrow> string \<Rightarrow> bool" where
  "option_unset generate_config k =
     (case generate_config of None \<Rightarrow> True | Some c \<Rightarrow> map_of c k = None)"

text \<open>The config \<open>chat\<close> hands to \<^verbatim>\<open>_generate\<close> and \<^verbatim>\<open>_generate_stream\<close> (line 131).\<close>

definition config_of :: "PytorchGenerateConfig option \<Rightarrow> PytorchGenerateConfig" where
  "config_of generate_config = (case generate_config of None \<Rightarrow> [] | Some c \<Rightarrow> c)"

section \<open>A concrete engine\<close>

text \<open>
  An engine for the examples: the template step fails on a message without content, and
  \<open>generate\<close> behaves as the run it is given.
\<close>

definition template_error :: exc where
  "template_error = \<lparr>exc_class = TemplateError, exc_msg = ''empty content'',
                     exc_traceback = [''apply_chat_template'']\<rparr>"

definition engine_error :: exc where
  "engine_error = \<lparr>exc_class = EngineError, exc_msg = ''out of memory'',
                   exc_traceback = [''generate'', ''model_generate'']\<rparr>"

definition example_model ::
  "streamer_op list \<times> (exc + int list list) \<Rightarrow> Qwen2VLChatModel" where
  "example_model run =
     \<lparr>model_uid = ''qwen2-vl-instruct'',
      device = ''cuda'',
      model_device = ''cuda:0'',
      roles = [''system'', ''user'', ''assistant''],
      apply_chat_template =
        (\<lambda>ms. if list_ex (\<lambda>m. content m = []) ms then Inl template_error
              else Inr (concat (map content ms))),
      process_vision_info = (\<lambda>ms. Inr ([], [])),
      processor = (\<lambda>texts images videos. Inr \<lparr>input_ids = [[1, 2, 3]], on_device = ''cpu''\<rparr>),
      inputs_to = (\<lambda>inps dev. Inr (inps\<lparr>on_device := dev\<rparr>)),
      generate = (\<lambda>kw. run),
      unflushed = (\<lambda>kw. []),
      batch_decode = (\<lambda>ids. Inr (map (\<lambda>l. replicate (length l) (CHR ''a'')) ids))\<rparr>"

definition example_world :: world where
  "example_world = \<lparr>calls = [], uuid_source = (\<lambda>n. replicate (Suc n) (CHR ''u'')),
                    uuid_count = 0\<rparr>"

definition hello :: "ChatCompletionMessage list" where
  "hello = [\<lparr>role = ''user'', content = ''hi''\<rparr>]"

definition blank :: "ChatCompletionMessage list" where
  "blank = [\<lparr>role = ''user'', content = []\<rparr>]"

definition good_run :: "streamer_op list \<times> (exc + int list list)" where
  "good_run = ([Put ''Hel'', Put ''lo'', End], Inr [[1, 2, 3, 4, 5]])"

definition failing_run :: "streamer_op list \<times> (exc + int list list)" where
  "failing_run = ([Put ''par'', Put ''tial''], Inl engine_error)"

definition timeout_config :: PytorchGenerateConfig where
  "timeout_config = [(''stream'', PBool True), (''timeout'', PFloat 5)]"

definition late_failing_run :: "streamer_op list \<times> (exc + int list list)" where
  "late_failing_run = ([Put ''Hel'', Put ''lo'', End], Inl engine_error)"

definition stalling_run :: "streamer_op list \<times> (exc + int list list)" where
  "stalling_run = ([Put ''par'', Stall, Put ''tial'', End], Inr [[1, 2, 3, 4]])"

section \<open>Preparation and the consumer's loop\<close>

text \<open>
  Preparing the input invokes engine operations but never \<open>generate\<close>, leaves the uuid
  supply alone, and its result does not depend on the world.
\<close>

lemma prepare_inputs_world:
  "prepare_inputs self m d w = (r, w1) \<Longrightarrow>
     uuid_count w1 = uuid_count w \<and> uuid_source w1 = uuid_source w \<and>
     (\<exists>cs. calls w1 = calls w @ cs \<and> (\<forall>kw. Generate kw \<notin> set cs))"
  unfolding prepare_inputs_def and_then_def call_def log_call_def
  by (auto split: sum.splits prod.splits)

lemma prepare_inputs_result:
  "fst (prepare_inputs self m d w) = fst (prepare_inputs self m d w')"
  unfolding prepare_inputs_def and_then_def call_def
  by (auto split: sum.splits prod.splits)

lemma error_after_queue:
  "error_after (map Queue ops @ rest) err = error_after rest err"
  by (induction ops) auto

lemma stream_loop_run:
  "stream_loop cid uid (map Queue ops @ rest) err =
     (if next_signal ops = Some End
      then (map (text_chunk cid uid) (put_texts ops), Exhausted, error_after rest err)
      else if next_signal ops = Some Stall
      then (map (text_chunk cid uid) (put_texts ops), LoopRaised queue_empty, err)
      else (case stream_loop cid uid rest err of
              (cs, ex, er) \<Rightarrow> (map (text_chunk cid uid) (put_texts ops) @ cs, ex, er)))"
proof (induction ops)
  case Nil
  then show ?case by simp
next
  case (Cons op ops)
  then show ?case by (cases op) (auto simp add: error_after_queue split: prod.splits)
qed

lemma stream_loop_ops:
  "stream_loop cid uid (map Queue ops) err =
     (map (text_chunk cid uid) (put_texts ops),
      (if next_signal ops = Some End then Exhausted else LoopRaised queue_empty), err)"
  using stream_loop_run [of cid uid ops "[]" err] by simp

lemma next_signal_cases:
  "next_signal ops = None \<or> next_signal ops = Some End \<or> next_signal ops = Some Stall"
proof -
  have "next_signal ops \<noteq> Some (Put t)" for t
    by (induction ops rule: next_signal.induct) auto
  then show ?thesis
    by (cases "next_signal ops") (auto intro: streamer_op.exhaust)
qed

lemma stream_loop_captured:
  "stream_loop cid uid (map Queue ops @ SetError ei # map Queue (streamer_end held)) err =
     (if next_signal ops = Some Stall
      then (map (text_chunk cid uid) (put_texts ops), LoopRaised queue_empty, err)
      else (map (text_chunk cid uid)
              (put_texts ops @ (if next_signal ops = Some End then [] else [held])),
            Exhausted, Some ei))"
  using next_signal_cases [of ops]
    stream_loop_run [of cid uid ops "SetError ei # map Queue (streamer_end held)" err]
  by (auto simp add: streamer_end_def)

text \<open>How the generator runs once the input is prepared.\<close>

lemma u_generate_stream_run:
  assumes "prepare_inputs self msgs (model_device self) w = (Inr inps, w1)"
    and "generate self (stream_kwargs config inps) = (ops, res)"
  shows "u_generate_stream self msgs config w =
     (let cid = uuid_source w (uuid_count w);
          front = map (text_chunk cid (model_uid self)) (put_texts ops);
          w3 = stream_world (stream_kwargs config inps) w1;
          uncaught = (if next_signal ops = Some End
                      then ((front @ [stop_chunk cid (model_uid self)], StopIteration), w3)
                      else ((front, Raised queue_empty), w3))
      in if next_signal ops = Some Stall then ((front, Raised queue_empty), w3)
         else (case res of
                 Inr ids \<Rightarrow> uncaught
               | Inl e \<Rightarrow>
                   if is_Exception (exc_class e)
                   then ((front @ (if next_signal ops = Some End then []
                                   else [text_chunk cid (model_uid self)
                                           (unflushed self (stream_kwargs config inps))]),
                          Raised e), w3)
                   else uncaught))"
proof -
  have w1: "uuid_source w1 = uuid_source w" "uuid_count w1 = uuid_count w"
    using prepare_inputs_world [OF assms(1)] by simp_all
  have id: "uuid1 (log_call (Generate kw) w1) = (uuid_source w (uuid_count w), stream_world kw w1)" for kw
    by (simp add: uuid1_def log_call_def stream_world_def w1)
  show ?thesis
  proof (cases res)
    case (Inr ids)
    then show ?thesis
      using assms
      by (simp add: u_generate_stream_def model_generate_def id stream_loop_ops Let_def)
  next
    case (Inl e)
    then show ?thesis
      using assms next_signal_cases [of ops]
      by (auto simp add: u_generate_stream_def model_generate_def id stream_loop_ops
          stream_loop_captured Let_def sys_exc_info_def with_traceback_def)
  qed
qed

lemma u_generate_stream_unprepared:
  "prepare_inputs self msgs (model_device self) w = (Inl e, w1) \<Longrightarrow>
     u_generate_stream self msgs config w = (([], Raised e), w1)"
  by (simp add: u_generate_stream_def)

lemma iterator_shape:
  "\<exists>msgs config. it = ToChatCompletionChunks (GenerateStream msgs config)"
  by (metis chat_chunk_iterator.exhaust chunk_iterator.exhaust)

lemma producer_completes_run:
  assumes "producer_completes self (ToChatCompletionChunks (GenerateStream msgs config)) w"
  shows "\<exists>inps w1 ops ids.
           prepare_inputs self msgs (model_device self) w = (Inr inps, w1)
         \<and> generate self (stream_kwargs config inps) = (ops, Inr ids)
         \<and> next_signal ops = Some End"
proof -
  obtain r w1 where p: "prepare_inputs self msgs (model_device self) w = (r, w1)"
    by fastforce
  from assms p obtain inps where r: "r = Inr inps"
    by (cases r) auto
  obtain ops res where g: "generate self (stream_kwargs config inps) = (ops, res)"
    by fastforce
  from assms p r g obtain ids where "res = Inr ids" "next_signal ops = Some End"
    by (cases res) auto
  with p r g show ?thesis by blast
qed



lemma producer_stalls_run:
  assumes "producer_stalls self (ToChatCompletionChunks (GenerateStream msgs config)) w
             = Some texts"
  shows "\<exists>inps w1 ops res.
           prepare_inputs self msgs (model_device self) w = (Inr inps, w1)
         \<and> generate self (stream_kwargs config inps) = (ops, res)
         \<and> next_signal ops = Some Stall \<and> texts = put_texts ops"
proof -
  obtain r w1 where p: "prepare_inputs self msgs (model_device self) w = (r, w1)"
    by fastforce
  from assms p obtain inps where r: "r = Inr inps"
    by (cases r) auto
  obtain ops res where g: "generate self (stream_kwargs config inps) = (ops, res)"
    by fastforce
  from assms p r g have "next_signal ops = Some Stall \<and> texts = put_texts ops"
    by (auto split: if_splits)
  with p r g show ?thesis by blast
qed

text \<open>Every fragment of a run is a text fragment or the stop fragment of one identifier.\<close>

lemma u_generate_stream_fragments:
  "\<exists>texts. yielded (u_generate_stream self msgs config w)
       = map (text_chunk (uuid_source w (uuid_count w)) (model_uid self)) texts
     \<and> ending (u_generate_stream self msgs config w) \<noteq> StopIteration
   \<or> yielded (u_generate_stream self msgs config w)
       = map (text_chunk (uuid_source w (uuid_count w)) (model_uid self)) texts
           @ [stop_chunk (uuid_source w (uuid_count w)) (model_uid self)]
     \<and> ending (u_generate_stream self msgs config w) = StopIteration"
proof -
  obtain r w1 where p: "prepare_inputs self msgs (model_device self) w = (r, w1)"
    by fastforce
  show ?thesis
  proof (cases r)
    case (Inl e)
    with p have "u_generate_stream self msgs config w = (([], Raised e), w1)"
      by (simp add: u_generate_stream_unprepared)
    then show ?thesis by (simp add: yielded_def ending_def)
  next
    case (Inr inps)
    obtain ops res where g: "generate self (stream_kwargs config inps) = (ops, res)"
      by fastforce
    let ?tc = "text_chunk (uuid_source w (uuid_count w)) (model_uid self)"
    have "\<exists>ts. yielded (u_generate_stream self msgs config w) = map ?tc ts
               \<and> ending (u_generate_stream self msgs config w) \<noteq> StopIteration
            \<or> yielded (u_generate_stream self msgs config w)
                 = map ?tc (put_texts ops)
                     @ [stop_chunk (uuid_source w (uuid_count w)) (model_uid self)]
               \<and> ending (u_generate_stream self msgs config w) = StopIteration"
    proof (cases "ending (u_generate_stream self msgs config w) = StopIteration")
      case True
      then show ?thesis
        using u_generate_stream_run [OF p [unfolded Inr] g]
        by (auto simp add: yielded_def ending_def Let_def split: sum.splits if_splits)
    next
      case False
      then have "yielded (u_generate_stream self msgs config w) = map ?tc (put_texts ops)
          \<or> yielded (u_generate_stream self msgs config w)
               = map ?tc (put_texts ops @ [unflushed self (stream_kwargs config inps)])"
        using u_generate_stream_run [OF p [unfolded Inr] g]
        by (auto simp add: yielded_def ending_def Let_def split: sum.splits if_splits)
      with False show ?thesis by blast
    qed
    then show ?thesis by blast
  qed
qed

lemma u_generate_stream_uuid:
  "uuid_source (snd (u_generate_stream self msgs config w)) = uuid_source w
   \<and> (yielded (u_generate_stream self msgs config w) \<noteq> [] \<longrightarrow>
        uuid_count (snd (u_generate_stream self msgs config w)) = Suc (uuid_count w))"
proof -
  obtain r w1 where p: "prepare_inputs self msgs (model_device self) w = (r, w1)"
    by fastforce
  show ?thesis
  proof (cases r)
    case (Inl e)
    with p have "u_generate_stream self msgs config w = (([], Raised e), w1)"
      by (simp add: u_generate_stream_unprepared)
    then show ?thesis using prepare_inputs_world [OF p] by (simp add: yielded_def)
  next
    case (Inr inps)
    obtain ops res where g: "generate self (stream_kwargs config inps) = (ops, res)"
      by fastforce
    show ?thesis
      using u_generate_stream_run [OF p [unfolded Inr] g] prepare_inputs_world [OF p]
      by (auto simp add: yielded_def Let_def stream_world_def log_call_def split: sum.splits)
  qed
qed

lemma generate_calls_append:
  "generate_calls (cs @ ds) = generate_calls cs @ generate_calls ds"
  by (induction cs rule: generate_calls.induct) auto

lemma generate_calls_none:
  "(\<forall>kw. Generate kw \<notin> set cs) \<Longrightarrow> generate_calls cs = []"
  by (induction cs rule: generate_calls.induct) auto

lemma prepare_inputs_generate_calls:
  assumes "prepare_inputs self m d w = (r, w1)"
  shows "generate_calls (new_calls w w1) = []"
proof -
  obtain cs where "calls w1 = calls w @ cs" "\<forall>kw. Generate kw \<notin> set cs"
    using prepare_inputs_world [OF assms] by blast
  then show ?thesis
    by (simp add: new_calls_def generate_calls_none)
qed

lemma prepare_inputs_new_calls:
  assumes "prepare_inputs self m d w = (r, w1)"
  shows "calls w1 = calls w @ new_calls w w1"
  using prepare_inputs_world [OF assms] by (auto simp add: new_calls_def)

text \<open>The only \<open>generate\<close> call of a streaming run is the producer's, with the kwargs of lines 204-209.\<close>

lemma u_generate_stream_generate_calls:
  "generate_calls (new_calls w (snd (u_generate_stream self msgs config w))) =
     (case fst (prepare_inputs self msgs (model_device self) w) of
        Inl e \<Rightarrow> []
      | Inr inps \<Rightarrow> [stream_kwargs config inps])"
proof -
  obtain r w1 where p: "prepare_inputs self msgs (model_device self) w = (r, w1)"
    by fastforce
  note n = prepare_inputs_generate_calls [OF p] prepare_inputs_new_calls [OF p]
  show ?thesis
  proof (cases r)
    case (Inl e)
    with p have "u_generate_stream self msgs config w = (([], Raised e), w1)"
      by (simp add: u_generate_stream_unprepared)
    then show ?thesis using n p Inl by simp
  next
    case (Inr inps)
    obtain ops res where g: "generate self (stream_kwargs config inps) = (ops, res)"
      by fastforce
    have "snd (u_generate_stream self msgs config w)
            = stream_world (stream_kwargs config inps) w1"
      using u_generate_stream_run [OF p [unfolded Inr] g]
      by (auto simp add: Let_def split: sum.splits)
    moreover have "new_calls w (stream_world (stream_kwargs config inps) w1)
            = new_calls w w1 @ [Generate (stream_kwargs config inps)]"
      using prepare_inputs_world [OF p]
      by (auto simp add: new_calls_def stream_world_def log_call_def)
    ultimately show ?thesis
      using n(1) p Inr by (simp add: generate_calls_append)
  qed
qed

lemma example_uuid_inj: "inj (uuid_source example_world)"
proof (rule injI)
  fix x y
  assume "uuid_source example_world x = uuid_source example_world y"
  then have "length (replicate (Suc x) (CHR ''u'')) = length (replicate (Suc y) (CHR ''u''))"
    by (simp add: example_world_def)
  then show "x = y" by simp
qed

text \<open>
  \<open>chat\<close>, with the source's reading of the \<open>stream\<close> option replaced by the spec's: the
  two agree on every config.
\<close>

lemma chat_run:
  "chat self messages generate_config w =
     (case u_transform_messages self messages of
        Inl e \<Rightarrow> (Inl e, w)
      | Inr msgs \<Rightarrow>
          if stream_option generate_config
          then (Inr (ChunkIterator (ToChatCompletionChunks
                  (GenerateStream msgs (config_of generate_config)))), w)
          else (case u_generate self msgs (config_of generate_config) w of
                  (Inl e, w') \<Rightarrow> (Inl e, w')
                | (Inr c, w') \<Rightarrow> (Inr (Completion c), w')))"
proof (cases generate_config)
  case None
  then show ?thesis
    by (simp add: chat_def stream_option_def config_of_def split: sum.splits)
next
  case (Some c)
  then show ?thesis
    by (cases c)
      (simp_all add: chat_def stream_option_def config_of_def dict_get_def
        u_to_chat_completion_chunks_def split: sum.splits option.splits)
qed

text \<open>How \<^verbatim>\<open>_generate\<close> runs once the input is prepared.\<close>

lemma u_generate_run:
  assumes "prepare_inputs self msgs (device self) w = (Inr inps, w1)"
  shows "u_generate self msgs config w =
     (let kw = sync_kwargs config inps; w2 = log_call (Generate kw) w1
      in case snd (generate self kw) of
           Inl e \<Rightarrow> (Inl e, w2)
         | Inr generated_ids \<Rightarrow>
             (case batch_decode self (trim_generated (input_ids inps) generated_ids) of
                Inl e \<Rightarrow> (Inl e, log_call BatchDecode w2)
              | Inr [] \<Rightarrow> (Inl index_error, log_call BatchDecode w2)
              | Inr (output_text # rest) \<Rightarrow>
                  (Inr (generate_chat_completion (model_uid self) output_text
                          None None None),
                   log_call BatchDecode w2)))"
  using assms
  by (simp add: u_generate_def and_then_def call_def Let_def split: sum.splits list.splits)

lemma u_generate_unprepared:
  "prepare_inputs self msgs (device self) w = (Inl e, w1) \<Longrightarrow>
     u_generate self msgs config w = (Inl e, w1)"
  by (simp add: u_generate_def and_then_def)

lemma u_generate_result:
  assumes "fst (u_generate self msgs config w) = Inr c"
  shows "\<exists>output_text. c = generate_chat_completion (model_uid self) output_text
                               None None None"
proof -
  obtain r w1 where p: "prepare_inputs self msgs (device self) w = (r, w1)"
    by fastforce
  show ?thesis
  proof (cases r)
    case (Inl e)
    with p assms show ?thesis by (simp add: u_generate_unprepared)
  next
    case (Inr inps)
    with p assms show ?thesis
      by (auto simp add: u_generate_run Let_def split: sum.splits list.splits)
  qed
qed

lemma u_generate_generate_calls:
  "generate_calls (new_calls w (snd (u_generate self msgs config w))) =
     (case fst (prepare_inputs self msgs (device self) w) of
        Inl e \<Rightarrow> []
      | Inr inps \<Rightarrow> [sync_kwargs config inps])"
proof -
  obtain r w1 where p: "prepare_inputs self msgs (device self) w = (r, w1)"
    by fastforce
  obtain cs where cs: "calls w1 = calls w @ cs" "\<forall>kw. Generate kw \<notin> set cs"
    using prepare_inputs_world [OF p] by blast
  show ?thesis
  proof (cases r)
    case (Inl e)
    with p cs show ?thesis
      by (simp add: u_generate_unprepared new_calls_def generate_calls_none)
  next
    case (Inr inps)
    with p cs show ?thesis
      by (auto simp add: u_generate_run Let_def new_calls_def log_call_def
          generate_calls_append generate_calls_none split: sum.splits list.splits)
  qed
qed

lemma chat_generate_calls:
  "set (generate_calls (new_calls w (snd (chat self messages generate_config w))))
     \<subseteq> range (sync_kwargs (config_of generate_config))"
proof (cases "u_transform_messages self messages")
  case (Inl e)
  then show ?thesis by (simp add: chat_run new_calls_def)
next
  case (Inr msgs)
  show ?thesis
  proof (cases "stream_option generate_config")
    case True
    with Inr show ?thesis by (simp add: chat_run new_calls_def)
  next
    case False
    have "snd (chat self messages generate_config w)
            = snd (u_generate self msgs (config_of generate_config) w)"
      using Inr False by (simp add: chat_run split: prod.splits sum.splits)
    then show ?thesis
      using u_generate_generate_calls [of w self msgs "config_of generate_config"]
      by (auto split: sum.splits)
  qed
qed

lemma chat_iterator_config:
  "fst (chat self messages generate_config w) = Inr (ChunkIterator it) \<Longrightarrow>
     \<exists>msgs. u_transform_messages self messages = Inr msgs
          \<and> it = ToChatCompletionChunks (GenerateStream msgs (config_of generate_config))"
  by (auto simp add: chat_run split: sum.splits if_splits prod.splits)

lemma consume_generate_calls:
  "set (generate_calls (new_calls w
          (snd (consume self (ToChatCompletionChunks (GenerateStream msgs config)) w))))
     \<subseteq> range (stream_kwargs config)"
  using u_generate_stream_generate_calls [of w self msgs config]
  by (auto split: sum.splits)

lemma option_unset_config_of:
  "option_unset generate_config k \<Longrightarrow> map_of (config_of generate_config) k = None"
  by (simp add: option_unset_def config_of_def split: option.splits)

section \<open>Unfolding the model on concrete inputs\<close>

lemmas example_defs =
  example_model_def example_world_def hello_def blank_def good_run_def failing_run_def
  late_failing_run_def
  stalling_run_def template_error_def engine_error_def timeout_config_def

lemmas model_defs =
  chat_def u_transform_messages_def u_to_chat_completion_chunks_def u_generate_def
  u_generate_stream_def prepare_inputs_def and_then_def call_def log_call_def uuid1_def
  sync_kwargs_def stream_kwargs_def new_streamer_def model_generate_def dict_get_def
  trim_generated_def generate_chat_completion_def generate_completion_chunk_def
  text_chunk_def stop_chunk_def streamer_end_def sys_exc_info_def with_traceback_def queue_empty_def
  validation_error_def index_error_def yielded_def ending_def new_calls_def
  stream_option_def option_unset_def config_of_def

section \<open>The streaming contract\<close>

text \<open>
  C1. When \<open>chat\<close> returns an iterator and the producer completes without error, the
  consumer's run of the iterator ends (with \<^verbatim>\<open>StopIteration\<close>); the fragments form a finite,
  non-empty list whose last element has no text and finish reason \<^verbatim>\<open>"stop"\<close>, and every
  fragment before it has no finish reason. So the last fragment is the only one with a
  finish reason.
\<close>

theorem stream_ends_with_one_stop_fragment:
  assumes "fst (chat self messages generate_config w) = Inr (ChunkIterator it)"
    and "producer_completes self it wc"
  shows "ending (consume self it wc) = StopIteration
       \<and> yielded (consume self it wc) \<noteq> []
       \<and> delta_text (last (yielded (consume self it wc))) = None
       \<and> finish_reason (last (yielded (consume self it wc))) = Some ''stop''
       \<and> (\<forall>c \<in> set (butlast (yielded (consume self it wc))). finish_reason c = None)"
proof -
  obtain msgs config where it: "it = ToChatCompletionChunks (GenerateStream msgs config)"
    using iterator_shape by blast
  obtain inps w1 ops ids where
    prep: "prepare_inputs self msgs (model_device self) wc = (Inr inps, w1)" and
    gen: "generate self (stream_kwargs config inps) = (ops, Inr ids)" and
    sig: "next_signal ops = Some End"
    using producer_completes_run assms(2) unfolding it by blast
  show ?thesis
    unfolding it
    by (simp add: u_generate_stream_run [OF prep gen] sig yielded_def ending_def Let_def
        stop_chunk_def text_chunk_def generate_completion_chunk_def)
qed

theorem stream_ends_with_one_stop_fragment_witness:
  "fst (chat (example_model good_run) hello (Some [(''stream'', PBool True)]) example_world)
     = Inr (ChunkIterator (ToChatCompletionChunks
              (GenerateStream hello [(''stream'', PBool True)])))
   \<and> producer_completes (example_model good_run)
       (ToChatCompletionChunks (GenerateStream hello [(''stream'', PBool True)]))
       example_world
   \<and> map delta_text (yielded (consume (example_model good_run)
       (ToChatCompletionChunks (GenerateStream hello [(''stream'', PBool True)]))
       example_world)) = [Some ''Hel'', Some ''lo'', None]
   \<and> finish_reason (last (yielded (consume (example_model good_run)
       (ToChatCompletionChunks (GenerateStream hello [(''stream'', PBool True)]))
       example_world))) = Some ''stop''"
proof -
  have c: "fst (chat (example_model good_run) hello (Some [(''stream'', PBool True)])
                 example_world)
           = Inr (ChunkIterator (ToChatCompletionChunks
                    (GenerateStream hello [(''stream'', PBool True)])))"
    by (simp add: model_defs example_defs)
  have p: "producer_completes (example_model good_run)
             (ToChatCompletionChunks (GenerateStream hello [(''stream'', PBool True)]))
             example_world"
    by (simp add: model_defs example_defs)
  have t: "map delta_text (yielded (consume (example_model good_run)
       (ToChatCompletionChunks (GenerateStream hello [(''stream'', PBool True)]))
       example_world)) = [Some ''Hel'', Some ''lo'', None]"
    by (simp add: model_defs example_defs)
  show ?thesis
    using c p t stream_ends_with_one_stop_fragment [OF c p] by simp
qed



text \<open>
  C10. Every fragment of a stream carries the sentinel \<open>-1\<close> in its three usage counters.
  When the stream ends normally, its last fragment is the stop fragment, and its counters
  are the sentinel too.
\<close>

theorem stream_usage_is_sentinel:
  assumes "fst (chat self messages generate_config w) = Inr (ChunkIterator it)"
  shows "(\<forall>c \<in> set (yielded (consume self it wc)).
            usage c = \<lparr>prompt_tokens = - 1, completion_tokens = - 1, total_tokens = - 1\<rparr>)
       \<and> (ending (consume self it wc) = StopIteration \<longrightarrow>
            yielded (consume self it wc) \<noteq> []
          \<and> finish_reason (last (yielded (consume self it wc))) = Some ''stop''
          \<and> usage (last (yielded (consume self it wc)))
              = \<lparr>prompt_tokens = - 1, completion_tokens = - 1, total_tokens = - 1\<rparr>)"
proof -
  obtain msgs config where it: "it = ToChatCompletionChunks (GenerateStream msgs config)"
    using iterator_shape by blast
  show ?thesis
    unfolding it
    using u_generate_stream_fragments [of self msgs config wc]
    by (auto simp add: text_chunk_def stop_chunk_def generate_completion_chunk_def)
qed

theorem stream_usage_is_sentinel_witness:
  "fst (chat (example_model good_run) hello (Some [(''stream'', PBool True)]) example_world)
     = Inr (ChunkIterator (ToChatCompletionChunks
              (GenerateStream hello [(''stream'', PBool True)])))
   \<and> map (\<lambda>c. (finish_reason c, total_tokens (usage c)))
       (yielded (consume (example_model good_run)
         (ToChatCompletionChunks (GenerateStream hello [(''stream'', PBool True)]))
         example_world)) = [(None, - 1), (None, - 1), (Some ''stop'', - 1)]
   \<and> usage (last (yielded (consume (example_model good_run)
       (ToChatCompletionChunks (GenerateStream hello [(''stream'', PBool True)]))
       example_world)))
       = \<lparr>prompt_tokens = - 1, completion_tokens = - 1, total_tokens = - 1\<rparr>"
proof -
  have c: "fst (chat (example_model good_run) hello (Some [(''stream'', PBool True)])
                 example_world)
           = Inr (ChunkIterator (ToChatCompletionChunks
                    (GenerateStream hello [(''stream'', PBool True)])))"
    by (simp add: model_defs example_defs)
  have e: "ending (consume (example_model good_run)
         (ToChatCompletionChunks (GenerateStream hello [(''stream'', PBool True)]))
         example_world) = StopIteration"
    by (simp add: model_defs example_defs)
  have t: "map (\<lambda>c. (finish_reason c, total_tokens (usage c)))
       (yielded (consume (example_model good_run)
         (ToChatCompletionChunks (GenerateStream hello [(''stream'', PBool True)]))
         example_world)) = [(None, - 1), (None, - 1), (Some ''stop'', - 1)]"
    by (simp add: model_defs example_defs)
  show ?thesis
    using c e t stream_usage_is_sentinel [OF c, of example_world] by simp
qed

text \<open>
  C9. Two invocations of \<open>chat\<close> with the same messages and config, consumed one in the
  world \<open>w1\<close> and the other in any later world \<open>w2\<close> of the same \<^verbatim>\<open>uuid1\<close> supply. Every
  fragment of one stream, the stop fragment included, carries the single identifier drawn
  for that invocation; when the supply never repeats a value, no identifier of the first
  stream is an identifier of the second.
\<close>

theorem stream_identifier_stable_and_fresh:
  assumes "fst (chat self messages generate_config w) = Inr (ChunkIterator it1)"
    and "fst (chat self messages generate_config w') = Inr (ChunkIterator it2)"
    and "inj (uuid_source w1)"
    and "uuid_source w2 = uuid_source w1"
    and "uuid_count (snd (consume self it1 w1)) \<le> uuid_count w2"
  shows "(\<forall>c \<in> set (yielded (consume self it1 w1)).
            chunk_id c = uuid_source w1 (uuid_count w1))
       \<and> (\<forall>c \<in> set (yielded (consume self it2 w2)).
            chunk_id c = uuid_source w2 (uuid_count w2))
       \<and> (\<forall>c1 \<in> set (yielded (consume self it1 w1)).
          \<forall>c2 \<in> set (yielded (consume self it2 w2)). chunk_id c1 \<noteq> chunk_id c2)"
proof -
  obtain m1 c1 where it1: "it1 = ToChatCompletionChunks (GenerateStream m1 c1)"
    using iterator_shape by blast
  obtain m2 c2 where it2: "it2 = ToChatCompletionChunks (GenerateStream m2 c2)"
    using iterator_shape by blast
  have ids: "\<forall>c \<in> set (yielded (u_generate_stream self m cfg v)).
               chunk_id c = uuid_source v (uuid_count v)" for m cfg v
    using u_generate_stream_fragments [of self m cfg v]
    by (auto simp add: text_chunk_def stop_chunk_def generate_completion_chunk_def)
  have later: "uuid_count w1 < uuid_count w2"
    if "yielded (u_generate_stream self m1 c1 w1) \<noteq> []"
    using that u_generate_stream_uuid [of self m1 c1 w1] assms(5) by (simp add: it1)
  have fresh: "chunk_id a \<noteq> chunk_id b"
    if a: "a \<in> set (yielded (u_generate_stream self m1 c1 w1))"
      and b: "b \<in> set (yielded (u_generate_stream self m2 c2 w2))" for a b
  proof -
    from a have "yielded (u_generate_stream self m1 c1 w1) \<noteq> []" by auto
    then have "uuid_count w1 \<noteq> uuid_count w2" using later by simp
    then have "uuid_source w1 (uuid_count w1) \<noteq> uuid_source w1 (uuid_count w2)"
      using assms(3) by (auto dest: injD)
    moreover have "chunk_id a = uuid_source w1 (uuid_count w1)"
      using ids [of m1 c1 w1] a by blast
    moreover have "chunk_id b = uuid_source w1 (uuid_count w2)"
      using ids [of m2 c2 w2] b assms(4) by simp
    ultimately show ?thesis by simp
  qed
  show ?thesis
    unfolding it1 it2 using ids [of m1 c1 w1] ids [of m2 c2 w2] fresh by simp
qed

theorem stream_identifier_stable_and_fresh_witness:
  "fst (chat (example_model good_run) hello (Some [(''stream'', PBool True)]) example_world)
     = Inr (ChunkIterator (ToChatCompletionChunks
              (GenerateStream hello [(''stream'', PBool True)])))
   \<and> map chunk_id (yielded (consume (example_model good_run)
       (ToChatCompletionChunks (GenerateStream hello [(''stream'', PBool True)]))
       example_world)) = [''u'', ''u'', ''u'']
   \<and> map chunk_id (yielded (consume (example_model good_run)
       (ToChatCompletionChunks (GenerateStream hello [(''stream'', PBool True)]))
       (snd (consume (example_model good_run)
          (ToChatCompletionChunks (GenerateStream hello [(''stream'', PBool True)]))
          example_world)))) = [''uu'', ''uu'', ''uu'']
   \<and> chunk_id (hd (yielded (consume (example_model good_run)
       (ToChatCompletionChunks (GenerateStream hello [(''stream'', PBool True)]))
       example_world)))
     \<noteq> chunk_id (hd (yielded (consume (example_model good_run)
       (ToChatCompletionChunks (GenerateStream hello [(''stream'', PBool True)]))
       (snd (consume (example_model good_run)
          (ToChatCompletionChunks (GenerateStream hello [(''stream'', PBool True)]))
          example_world)))))"
proof -
  let ?it = "ToChatCompletionChunks (GenerateStream hello [(''stream'', PBool True)])"
  let ?w2 = "snd (consume (example_model good_run) ?it example_world)"
  have c: "fst (chat (example_model good_run) hello (Some [(''stream'', PBool True)])
                 example_world) = Inr (ChunkIterator ?it)"
    by (simp add: model_defs example_defs)
  have s: "uuid_source ?w2 = uuid_source example_world"
    by (simp add: model_defs example_defs)
  have a: "map chunk_id (yielded (consume (example_model good_run) ?it example_world))
             = [''u'', ''u'', ''u'']"
    by (simp add: model_defs example_defs)
  have b: "map chunk_id (yielded (consume (example_model good_run) ?it ?w2))
             = [''uu'', ''uu'', ''uu'']"
    by (simp add: model_defs example_defs)
  have "yielded (consume (example_model good_run) ?it example_world) \<noteq> []"
    using a by auto
  then have h1: "hd (yielded (consume (example_model good_run) ?it example_world))
                   \<in> set (yielded (consume (example_model good_run) ?it example_world))"
    by (rule hd_in_set)
  have "yielded (consume (example_model good_run) ?it ?w2) \<noteq> []"
    using b by auto
  then have h2: "hd (yielded (consume (example_model good_run) ?it ?w2))
                   \<in> set (yielded (consume (example_model good_run) ?it ?w2))"
    by (rule hd_in_set)
  show ?thesis
    using c a b h1 h2
      stream_identifier_stable_and_fresh [OF c c example_uuid_inj s order_refl]
    by blast
qed

section \<open>Result shape, validation and defaults\<close>

text \<open>
  C3. Whenever \<open>chat\<close> returns a result, its shape is decided by the \<open>stream\<close> option
  alone, read as false when no config is supplied or the option is absent: a single
  \<open>Completion\<close> when the option is false, an iterator of fragments when it is true. The
  result type has no third shape.
\<close>

theorem stream_option_determines_shape:
  assumes "fst (chat self messages generate_config w) = Inr r"
  shows "(case r of
            Completion c \<Rightarrow> \<not> stream_option generate_config
          | ChunkIterator it \<Rightarrow> stream_option generate_config)"
  using assms
  by (auto simp add: chat_run split: sum.splits if_splits prod.splits chat_result.splits)

theorem stream_option_determines_shape_witness:
  "fst (chat (example_model good_run) hello (Some [(''stream'', PBool True)]) example_world)
     = Inr (ChunkIterator (ToChatCompletionChunks
              (GenerateStream hello [(''stream'', PBool True)])))
   \<and> stream_option (Some [(''stream'', PBool True)])
   \<and> fst (chat (example_model good_run) hello None example_world)
     = Inr (Completion (generate_chat_completion ''qwen2-vl-instruct'' ''aa''
              None None None))
   \<and> \<not> stream_option None"
proof -
  have a: "fst (chat (example_model good_run) hello (Some [(''stream'', PBool True)])
                 example_world)
           = Inr (ChunkIterator (ToChatCompletionChunks
                    (GenerateStream hello [(''stream'', PBool True)])))"
    by (simp add: model_defs example_defs)
  have b: "fst (chat (example_model good_run) hello None example_world)
           = Inr (Completion (generate_chat_completion ''qwen2-vl-instruct'' ''aa''
                    None None None))"
    by (simp add: model_defs example_defs)
  show ?thesis
    using a b stream_option_determines_shape [OF a] stream_option_determines_shape [OF b]
    by simp
qed

text \<open>
  C4. On the empty conversation \<open>chat\<close> fails with the \<^verbatim>\<open>ValidationError\<close> for every config,
  streaming or not, and at the call itself: the error is the result of \<open>chat\<close>, the world
  is unchanged and no engine operation has been invoked.
\<close>

theorem empty_conversation_fails_validation:
  "chat self [] generate_config w = (Inl validation_error, w)
   \<and> exc_class validation_error = ValidationError
   \<and> new_calls w (snd (chat self [] generate_config w)) = []"
  by (simp add: chat_def u_transform_messages_def validation_error_def new_calls_def)

theorem empty_conversation_fails_validation_witness:
  "fst (chat (example_model good_run) [] (Some [(''stream'', PBool True)]) example_world)
     = Inl validation_error
   \<and> fst (chat (example_model good_run) [] (Some [(''stream'', PBool False)]) example_world)
     = Inl validation_error
   \<and> calls (snd (chat (example_model good_run) [] (Some [(''stream'', PBool True)])
        example_world)) = []
   \<and> calls (snd (chat (example_model good_run) [] (Some [(''stream'', PBool False)])
        example_world)) = []"
  using empty_conversation_fails_validation
          [of "example_model good_run" "Some [(''stream'', PBool True)]" example_world]
        empty_conversation_fails_validation
          [of "example_model good_run" "Some [(''stream'', PBool False)]" example_world]
  by (simp add: example_world_def)

text \<open>
  C5, as stated, fails: the synchronous result for a one-message conversation has finish
  reason \<^verbatim>\<open>"stop"\<close>, but its three usage counters are the sentinel \<open>-1\<close>.
\<close>

theorem sync_usage_is_sentinel_counterexample:
  "fst (chat (example_model good_run) hello (Some [(''stream'', PBool False)])
          example_world)
     = Inr (Completion
         \<lparr>completion_model = ''qwen2-vl-instruct'', completion_text = ''aa'',
          completion_finish_reason = ''stop'',
          completion_usage =
            \<lparr>prompt_tokens = - 1, completion_tokens = - 1, total_tokens = - 1\<rparr>\<rparr>)"
  by (simp add: model_defs example_defs)

text \<open>
  C5, amended. Whenever \<open>chat\<close> returns a single \<open>Completion\<close>, the \<open>stream\<close> option is
  false, the finish reason is \<^verbatim>\<open>"stop"\<close>, the model is the model's uid, and the three usage
  counters are the sentinel \<open>-1\<close>: \<^verbatim>\<open>_generate\<close> passes no token counts to the formatter.
\<close>

theorem sync_result_is_stop_with_sentinel_usage:
  assumes "fst (chat self messages generate_config w) = Inr (Completion c)"
  shows "\<not> stream_option generate_config
       \<and> completion_finish_reason c = ''stop''
       \<and> completion_model c = model_uid self
       \<and> completion_usage c
           = \<lparr>prompt_tokens = - 1, completion_tokens = - 1, total_tokens = - 1\<rparr>"
proof -
  from assms obtain msgs where t: "u_transform_messages self messages = Inr msgs"
    by (auto simp add: chat_run split: sum.splits)
  with assms have
    "fst (u_generate self msgs (config_of generate_config) w) = Inr c"
    "\<not> stream_option generate_config"
    by (auto simp add: chat_run split: sum.splits if_splits prod.splits)
  then show ?thesis
    using u_generate_result [of self msgs "config_of generate_config" w c]
    by (auto simp add: generate_chat_completion_def)
qed

theorem sync_result_is_stop_with_sentinel_usage_witness:
  "fst (chat (example_model good_run) hello None example_world)
     = Inr (Completion (generate_chat_completion ''qwen2-vl-instruct'' ''aa''
              None None None))
   \<and> completion_finish_reason (generate_chat_completion ''qwen2-vl-instruct'' ''aa''
        None None None) = ''stop''
   \<and> completion_usage (generate_chat_completion ''qwen2-vl-instruct'' ''aa''
        None None None)
       = \<lparr>prompt_tokens = - 1, completion_tokens = - 1, total_tokens = - 1\<rparr>"
proof -
  have b: "fst (chat (example_model good_run) hello None example_world)
           = Inr (Completion (generate_chat_completion ''qwen2-vl-instruct'' ''aa''
                    None None None))"
    by (simp add: model_defs example_defs)
  show ?thesis
    using b sync_result_is_stop_with_sentinel_usage [OF b] by simp
qed

text \<open>
  C6. An option is unset when no config is supplied or the config has no entry for it.
  With \<open>stream\<close> unset \<open>chat\<close> never returns an iterator. Every \<open>generate\<close> call that
  \<open>chat\<close> makes on the synchronous path, and every one made when the returned iterator is
  consumed, has \<open>max_new_tokens = 512\<close> when \<open>max_tokens\<close> is unset and temperature \<open>1\<close>
  when \<open>temperature\<close> is unset; the source writes the integer \<open>1\<close>, which equals \<open>1.0\<close>
  as a Python number.
\<close>

theorem unset_options_take_defaults:
  "(option_unset generate_config ''stream'' \<longrightarrow>
      (\<forall>it. fst (chat self messages generate_config w) \<noteq> Inr (ChunkIterator it)))
   \<and> (\<forall>kw \<in> set (generate_calls (new_calls w (snd (chat self messages generate_config w)))).
        (option_unset generate_config ''max_tokens'' \<longrightarrow> max_new_tokens kw = PInt 512)
      \<and> (option_unset generate_config ''temperature'' \<longrightarrow>
           temperature kw = PInt 1 \<and> py_eq (temperature kw) (PFloat 1)))
   \<and> (\<forall>it. fst (chat self messages generate_config w) = Inr (ChunkIterator it) \<longrightarrow>
        (\<forall>kw \<in> set (generate_calls (new_calls wc (snd (consume self it wc)))).
           (option_unset generate_config ''max_tokens'' \<longrightarrow> max_new_tokens kw = PInt 512)
         \<and> (option_unset generate_config ''temperature'' \<longrightarrow>
              temperature kw = PInt 1 \<and> py_eq (temperature kw) (PFloat 1))))"
proof (intro conjI allI impI ballI)
  fix it
  assume "option_unset generate_config ''stream''"
  then have "\<not> stream_option generate_config"
    by (simp add: option_unset_def stream_option_def split: option.splits)
  then show "fst (chat self messages generate_config w) \<noteq> Inr (ChunkIterator it)"
    by (auto simp add: chat_run split: sum.splits prod.splits)
next
  fix kw
  assume kw: "kw \<in> set (generate_calls (new_calls w (snd (chat self messages generate_config w))))"
  then obtain inps where k: "kw = sync_kwargs (config_of generate_config) inps"
    using chat_generate_calls [of w self messages generate_config] by blast
  {
    assume "option_unset generate_config ''max_tokens''"
    then show "max_new_tokens kw = PInt 512"
      using k by (simp add: sync_kwargs_def dict_get_def option_unset_config_of)
  }
  {
    assume "option_unset generate_config ''temperature''"
    then show "temperature kw = PInt 1" "py_eq (temperature kw) (PFloat 1)"
      using k by (simp_all add: sync_kwargs_def dict_get_def option_unset_config_of py_eq_def)
  }
next
  fix it kw
  assume c: "fst (chat self messages generate_config w) = Inr (ChunkIterator it)"
    and kw: "kw \<in> set (generate_calls (new_calls wc (snd (consume self it wc))))"
  obtain msgs where
    "it = ToChatCompletionChunks (GenerateStream msgs (config_of generate_config))"
    using chat_iterator_config [OF c] by blast
  with kw obtain inps where k: "kw = stream_kwargs (config_of generate_config) inps"
    using consume_generate_calls [of wc self msgs "config_of generate_config"] by blast
  {
    assume "option_unset generate_config ''max_tokens''"
    then show "max_new_tokens kw = PInt 512"
      using k by (simp add: stream_kwargs_def dict_get_def option_unset_config_of)
  }
  {
    assume "option_unset generate_config ''temperature''"
    then show "temperature kw = PInt 1" "py_eq (temperature kw) (PFloat 1)"
      using k by (simp_all add: stream_kwargs_def dict_get_def option_unset_config_of py_eq_def)
  }
qed

theorem unset_options_take_defaults_witness:
  "option_unset None ''stream'' \<and> option_unset None ''max_tokens''
   \<and> option_unset None ''temperature''
   \<and> fst (chat (example_model good_run) hello None example_world)
       = Inr (Completion (generate_chat_completion ''qwen2-vl-instruct'' ''aa''
                None None None))
   \<and> map (\<lambda>kw. (max_new_tokens kw, temperature kw))
       (generate_calls (new_calls example_world
          (snd (chat (example_model good_run) hello None example_world))))
       = [(PInt 512, PInt 1)]
   \<and> option_unset (Some [(''stream'', PBool True)]) ''max_tokens''
   \<and> option_unset (Some [(''stream'', PBool True)]) ''temperature''
   \<and> fst (chat (example_model good_run) hello (Some [(''stream'', PBool True)])
            example_world)
       = Inr (ChunkIterator (ToChatCompletionChunks
                (GenerateStream hello [(''stream'', PBool True)])))
   \<and> map (\<lambda>kw. (max_new_tokens kw, temperature kw))
       (generate_calls (new_calls example_world
          (snd (consume (example_model good_run)
             (ToChatCompletionChunks (GenerateStream hello [(''stream'', PBool True)]))
             example_world))))
       = [(PInt 512, PInt 1)]
   \<and> py_eq (PInt 1) (PFloat 1)"
proof -
  have a: "fst (chat (example_model good_run) hello None example_world)
       = Inr (Completion (generate_chat_completion ''qwen2-vl-instruct'' ''aa''
                None None None))"
    by (simp add: model_defs example_defs)
  have b: "map (\<lambda>kw. (max_new_tokens kw, temperature kw))
       (generate_calls (new_calls example_world
          (snd (chat (example_model good_run) hello None example_world))))
       = [(PInt 512, PInt 1)]"
    by (simp add: model_defs example_defs)
  have c: "fst (chat (example_model good_run) hello (Some [(''stream'', PBool True)])
            example_world)
       = Inr (ChunkIterator (ToChatCompletionChunks
                (GenerateStream hello [(''stream'', PBool True)])))"
    by (simp add: model_defs example_defs)
  have d: "map (\<lambda>kw. (max_new_tokens kw, temperature kw))
       (generate_calls (new_calls example_world
          (snd (consume (example_model good_run)
             (ToChatCompletionChunks (GenerateStream hello [(''stream'', PBool True)]))
             example_world))))
       = [(PInt 512, PInt 1)]"
    by (simp add: model_defs example_defs)
  have u: "option_unset None ''stream''" "option_unset None ''max_tokens''"
    "option_unset None ''temperature''"
    "option_unset (Some [(''stream'', PBool True)]) ''max_tokens''"
    "option_unset (Some [(''stream'', PBool True)]) ''temperature''"
    by (simp_all add: option_unset_def)
  have e: "py_eq (PInt 1) (PFloat 1)"
    by (simp add: py_eq_def)
  show ?thesis
    using a b c d u e
      unset_options_take_defaults
        [of None "example_model good_run" hello example_world example_world]
    by simp
qed

section \<open>Timeouts and preparation failures\<close>

text \<open>
  C7, as stated, fails: with a config that asks for a timeout of 5 the streamer handed to
  \<open>generate\<close> still has timeout 60, and when the producer stalls the consumer's run ends
  with \<^verbatim>\<open>queue.Empty\<close>, whose class is not \<^verbatim>\<open>GenerationTimeoutError\<close>.
\<close>

theorem stall_is_not_generation_timeout_error:
  "dict_get timeout_config ''timeout'' PNone = PFloat 5
   \<and> fst (chat (example_model stalling_run) hello (Some timeout_config) example_world)
       = Inr (ChunkIterator (ToChatCompletionChunks (GenerateStream hello timeout_config)))
   \<and> map streamer (generate_calls (calls (snd (consume (example_model stalling_run)
        (ToChatCompletionChunks (GenerateStream hello timeout_config)) example_world))))
       = [Some \<lparr>timeout = 60, skip_prompt = True, skip_special_tokens = True\<rparr>]
   \<and> ending (consume (example_model stalling_run)
        (ToChatCompletionChunks (GenerateStream hello timeout_config)) example_world)
       = Raised queue_empty
   \<and> exc_class queue_empty \<noteq> GenerationTimeoutError"
  by (simp add: model_defs example_defs)

text \<open>
  C7, amended. The streamer of every streaming invocation is built with the fixed timeout
  60, whatever the config holds. When the consumer's wait outlasts it, the consumer has
  got one fragment per text put on the queue before, each without a finish reason, and the
  run ends by raising the streamer's \<^verbatim>\<open>queue.Empty\<close> unchanged: a terminal failure, with no
  stop fragment.
\<close>

theorem stall_raises_queue_empty_after_fixed_timeout:
  assumes "fst (chat self messages generate_config w) = Inr (ChunkIterator it)"
  shows "(\<forall>kw \<in> set (generate_calls (new_calls wc (snd (consume self it wc)))).
            streamer kw = Some new_streamer \<and> timeout new_streamer = 60)
       \<and> (\<forall>texts. producer_stalls self it wc = Some texts \<longrightarrow>
            map delta_text (yielded (consume self it wc)) = map Some texts
          \<and> ending (consume self it wc) = Raised queue_empty
          \<and> exc_class queue_empty = QueueEmpty
          \<and> (\<forall>c \<in> set (yielded (consume self it wc)). finish_reason c = None))"
proof (intro conjI allI impI ballI)
  obtain msgs config where it: "it = ToChatCompletionChunks (GenerateStream msgs config)"
    using iterator_shape by blast
  {
    fix kw
    assume "kw \<in> set (generate_calls (new_calls wc (snd (consume self it wc))))"
    then obtain inps where "kw = stream_kwargs config inps"
      using consume_generate_calls [of wc self msgs config] unfolding it by blast
    then show "streamer kw = Some new_streamer" "timeout new_streamer = 60"
      by (simp_all add: stream_kwargs_def new_streamer_def)
  }
  fix texts
  assume "producer_stalls self it wc = Some texts"
  then obtain inps w1 ops res where
    prep: "prepare_inputs self msgs (model_device self) wc = (Inr inps, w1)" and
    gen: "generate self (stream_kwargs config inps) = (ops, res)" and
    sig: "next_signal ops = Some Stall" "texts = put_texts ops"
    using producer_stalls_run unfolding it by blast
  have run: "u_generate_stream self msgs config wc =
        ((map (text_chunk (uuid_source wc (uuid_count wc)) (model_uid self)) texts,
          Raised queue_empty),
         stream_world (stream_kwargs config inps) w1)"
    by (simp add: u_generate_stream_run [OF prep gen] sig Let_def)
  show "map delta_text (yielded (consume self it wc)) = map Some texts"
    unfolding it
    by (simp add: run yielded_def text_chunk_def generate_completion_chunk_def comp_def)
  show "ending (consume self it wc) = Raised queue_empty"
    unfolding it by (simp add: run ending_def)
  show "exc_class queue_empty = QueueEmpty"
    by (simp add: queue_empty_def)
  fix c
  assume "c \<in> set (yielded (consume self it wc))"
  then show "finish_reason c = None"
    unfolding it
    by (auto simp add: run yielded_def text_chunk_def generate_completion_chunk_def)
qed

theorem stall_raises_queue_empty_after_fixed_timeout_witness:
  "fst (chat (example_model stalling_run) hello (Some timeout_config) example_world)
       = Inr (ChunkIterator (ToChatCompletionChunks (GenerateStream hello timeout_config)))
   \<and> producer_stalls (example_model stalling_run)
        (ToChatCompletionChunks (GenerateStream hello timeout_config)) example_world
       = Some [''par'']
   \<and> map delta_text (yielded (consume (example_model stalling_run)
        (ToChatCompletionChunks (GenerateStream hello timeout_config)) example_world))
       = [Some ''par'']
   \<and> ending (consume (example_model stalling_run)
        (ToChatCompletionChunks (GenerateStream hello timeout_config)) example_world)
       = Raised queue_empty
   \<and> map streamer (generate_calls (new_calls example_world
        (snd (consume (example_model stalling_run)
          (ToChatCompletionChunks (GenerateStream hello timeout_config)) example_world))))
       = [Some new_streamer]"
proof -
  have c: "fst (chat (example_model stalling_run) hello (Some timeout_config) example_world)
       = Inr (ChunkIterator (ToChatCompletionChunks (GenerateStream hello timeout_config)))"
    by (simp add: model_defs example_defs)
  have p: "producer_stalls (example_model stalling_run)
        (ToChatCompletionChunks (GenerateStream hello timeout_config)) example_world
       = Some [''par'']"
    by (simp add: model_defs example_defs)
  have g: "map streamer (generate_calls (new_calls example_world
        (snd (consume (example_model stalling_run)
          (ToChatCompletionChunks (GenerateStream hello timeout_config)) example_world))))
       = [Some new_streamer]"
    by (simp add: model_defs example_defs)
  show ?thesis
    using c p g stall_raises_queue_empty_after_fixed_timeout [OF c, of example_world]
    by simp
qed

text \<open>
  C8, as stated, fails: for a conversation the template step rejects, \<open>chat\<close> with
  \<open>stream = True\<close> raises nothing. It returns the iterator and has invoked no engine
  operation; the \<^verbatim>\<open>TemplateError\<close> is raised when the iterator is consumed.
\<close>

theorem template_error_deferred_when_streaming:
  "apply_chat_template (example_model good_run) blank = Inl template_error
   \<and> fst (chat (example_model good_run) blank (Some [(''stream'', PBool True)])
            example_world)
       = Inr (ChunkIterator (ToChatCompletionChunks
                (GenerateStream blank [(''stream'', PBool True)])))
   \<and> calls (snd (chat (example_model good_run) blank (Some [(''stream'', PBool True)])
        example_world)) = []
   \<and> fst (consume (example_model good_run)
        (ToChatCompletionChunks (GenerateStream blank [(''stream'', PBool True)]))
        example_world) = ([], Raised template_error)"
  by (simp add: model_defs example_defs)

text \<open>
  C8, amended. For a conversation that passes validation and whose preparation fails with
  \<open>e\<close>: with \<open>stream\<close> false, \<open>chat\<close> itself fails with \<open>e\<close>; with \<open>stream\<close> true,
  \<open>chat\<close> returns the iterator and leaves the world as it was, and consuming the iterator
  raises \<open>e\<close> before any fragment is yielded and before \<open>generate\<close> is called.
\<close>

theorem preparation_error_immediate_or_on_first_pull:
  assumes "u_transform_messages self messages = Inr msgs"
  shows "(\<not> stream_option generate_config \<longrightarrow>
            fst (prepare_inputs self msgs (device self) w) = Inl e \<longrightarrow>
            fst (chat self messages generate_config w) = Inl e)
       \<and> (stream_option generate_config \<longrightarrow>
            chat self messages generate_config w
              = (Inr (ChunkIterator (ToChatCompletionChunks
                   (GenerateStream msgs (config_of generate_config)))), w)
          \<and> (fst (prepare_inputs self msgs (model_device self) wc) = Inl e \<longrightarrow>
               yielded (consume self (ToChatCompletionChunks
                   (GenerateStream msgs (config_of generate_config))) wc) = []
             \<and> ending (consume self (ToChatCompletionChunks
                   (GenerateStream msgs (config_of generate_config))) wc) = Raised e
             \<and> generate_calls (new_calls wc (snd (consume self (ToChatCompletionChunks
                   (GenerateStream msgs (config_of generate_config))) wc))) = []))"
proof (intro conjI impI)
  assume "\<not> stream_option generate_config"
    and "fst (prepare_inputs self msgs (device self) w) = Inl e"
  moreover obtain w1 where "prepare_inputs self msgs (device self) w = (Inl e, w1)"
    using calculation(2) by (cases "prepare_inputs self msgs (device self) w") simp
  ultimately show "fst (chat self messages generate_config w) = Inl e"
    using assms by (simp add: chat_run u_generate_unprepared)
next
  assume "stream_option generate_config"
  then show "chat self messages generate_config w
              = (Inr (ChunkIterator (ToChatCompletionChunks
                   (GenerateStream msgs (config_of generate_config)))), w)"
    using assms by (simp add: chat_run)
next
  assume p: "fst (prepare_inputs self msgs (model_device self) wc) = Inl e"
  then obtain w1 where p1: "prepare_inputs self msgs (model_device self) wc = (Inl e, w1)"
    by (cases "prepare_inputs self msgs (model_device self) wc") simp
  let ?it = "ToChatCompletionChunks (GenerateStream msgs (config_of generate_config))"
  show "yielded (consume self ?it wc) = []"
    by (simp add: u_generate_stream_unprepared [OF p1] yielded_def)
  show "ending (consume self ?it wc) = Raised e"
    by (simp add: u_generate_stream_unprepared [OF p1] ending_def)
  show "generate_calls (new_calls wc (snd (consume self ?it wc))) = []"
    using u_generate_stream_generate_calls [of wc self msgs "config_of generate_config"] p
    by simp
qed

theorem preparation_error_immediate_or_on_first_pull_witness:
  "u_transform_messages (example_model good_run) blank = Inr blank
   \<and> \<not> stream_option (Some [(''stream'', PBool False)])
   \<and> stream_option (Some [(''stream'', PBool True)])
   \<and> fst (prepare_inputs (example_model good_run) blank ''cuda'' example_world)
       = Inl template_error
   \<and> fst (prepare_inputs (example_model good_run) blank ''cuda:0'' example_world)
       = Inl template_error
   \<and> fst (chat (example_model good_run) blank (Some [(''stream'', PBool False)])
            example_world) = Inl template_error
   \<and> fst (chat (example_model good_run) blank (Some [(''stream'', PBool True)])
            example_world)
       = Inr (ChunkIterator (ToChatCompletionChunks
                (GenerateStream blank [(''stream'', PBool True)])))
   \<and> ending (consume (example_model good_run)
        (ToChatCompletionChunks (GenerateStream blank [(''stream'', PBool True)]))
        example_world) = Raised template_error"
proof -
  have t: "u_transform_messages (example_model good_run) blank = Inr blank"
    by (simp add: model_defs example_defs)
  have s: "\<not> stream_option (Some [(''stream'', PBool False)])"
    "stream_option (Some [(''stream'', PBool True)])"
    by (simp_all add: stream_option_def)
  have p: "fst (prepare_inputs (example_model good_run) blank
                  (device (example_model good_run)) example_world) = Inl template_error"
    "fst (prepare_inputs (example_model good_run) blank
            (model_device (example_model good_run)) example_world) = Inl template_error"
    by (simp_all add: model_defs example_defs)
  have d: "device (example_model good_run) = ''cuda''"
    "model_device (example_model good_run) = ''cuda:0''"
    "config_of (Some [(''stream'', PBool True)]) = [(''stream'', PBool True)]"
    by (simp_all add: example_model_def config_of_def)
  show ?thesis
    using t s p d
      preparation_error_immediate_or_on_first_pull
        [OF t, of "Some [(''stream'', PBool False)]" example_world template_error
           example_world]
      preparation_error_immediate_or_on_first_pull
        [OF t, of "Some [(''stream'', PBool True)]" example_world template_error
           example_world]
    by simp
qed

end
